theory Spec2Isabelle
  imports Main "HOL-Library.Multiset"
begin

section \<open>Data model\<close>

text \<open>
  The admin blueprint of \<^verbatim>\<open>admin_routes.py\<close> works on two tables of the relational
  store: users and subscription requests. A row is a record, a table the list of its
  rows, and the store the pair of tables. Identifiers, tiers and statuses are the
  strings the routes compare them with (\<^verbatim>\<open>'pending'\<close>, \<^verbatim>\<open>'free'\<close>, ...); timestamps
  are natural numbers.
\<close>

record user =
  uid :: string
  email :: string
  full_name :: string
  subscription_tier :: string
  is_admin :: bool

record subscription_request =
  rid :: string
  user_id :: string
  current_tier :: string
  requested_tier :: string
  status :: string
  created_at :: nat
  updated_at :: nat

record store =
  users :: "user list"
  requests :: "subscription_request list"

text \<open>
  What a view returns: a JSON response with its HTTP code (\<^verbatim>\<open>jsonify(...)\<close> alone is
  code 200), a redirect, or an exception that leaves the view unhandled. The two JSON
  bodies of the routes are \<^verbatim>\<open>{'success': True, 'message': m}\<close> and \<^verbatim>\<open>{'error': m}\<close>.
\<close>

datatype py_error = AttributeError | DBError string

datatype payload = Success string | Error string

datatype outcome = Response nat payload | Redirect string | Unhandled py_error

section \<open>The model layer\<close>

text \<open>
  Modelled from the spec: \<^verbatim>\<open>User.get\<close> of \<^verbatim>\<open>models.py\<close>, which is not among the
  sources. The spec gives its contract as
  \<^verbatim>\<open>UserDirectory.get(user_id) -> User | not-found\<close>.
\<close>

definition User_get :: "store \<Rightarrow> string \<Rightarrow> user option" where
  "User_get s k = find (\<lambda>u. uid u = k) (users s)"

text \<open>
  \<^verbatim>\<open>SubscriptionRequest.query.get(request_id)\<close>: the primary-key lookup of the
  object-relational mapper, \<^verbatim>\<open>None\<close> when no row has the key.
\<close>

definition SubscriptionRequest_query_get :: "store \<Rightarrow> string \<Rightarrow> subscription_request option" where
  "SubscriptionRequest_query_get s k = find (\<lambda>r. rid r = k) (requests s)"

text \<open>
  Modelled from the spec: \<^verbatim>\<open>User.update_subscription\<close> of \<^verbatim>\<open>models.py\<close>, which is
  not among the sources. The spec describes it as
  \<^verbatim>\<open>UserDirectory.updateSubscription(user_id, tier)\<close>, an idempotent tier assignment.
\<close>

definition User_update_subscription :: "string \<Rightarrow> string \<Rightarrow> store \<Rightarrow> store" where
  "User_update_subscription k tier s =
     s\<lparr>users := map (\<lambda>u. if uid u = k then u\<lparr>subscription_tier := tier\<rparr> else u) (users s)\<rparr>"

definition set_status :: "string \<Rightarrow> string \<Rightarrow> nat \<Rightarrow> store \<Rightarrow> store" where
  "set_status k st now s =
     s\<lparr>requests := map (\<lambda>r. if rid r = k then r\<lparr>status := st, updated_at := now\<rparr> else r)
                        (requests s)\<rparr>"

text \<open>
  A method of a request object, as the routes call it: given the loaded request and the
  store it returns the exception it raised, if any, and the store as it left it. The
  routes are written over any such method, since \<^verbatim>\<open>models.py\<close> is not among the
  sources; the methods below are the ones the spec describes.
\<close>

type_synonym request_method = "subscription_request \<Rightarrow> store \<Rightarrow> py_error option \<times> store"

text \<open>
  Modelled from the spec: \<^verbatim>\<open>SubscriptionRequest.approve\<close> of \<^verbatim>\<open>models.py\<close>, which is
  not among the sources. Spec, operation approve: "sets status = approved; applies
  requested_tier to the referenced user via UserDirectory tier-mutation; records
  resolution timestamp". The time of the call is the argument \<open>now\<close>.
\<close>

definition SubscriptionRequest_approve :: "nat \<Rightarrow> request_method" where
  "SubscriptionRequest_approve now request s =
     (None, User_update_subscription (user_id request) (requested_tier request)
              (set_status (rid request) ''approved'' now s))"

text \<open>
  Modelled from the spec: \<^verbatim>\<open>SubscriptionRequest.reject\<close> of \<^verbatim>\<open>models.py\<close>, which is
  not among the sources. Spec, operation reject: "sets status = rejected; user's tier is
  left unchanged".
\<close>

definition SubscriptionRequest_reject :: "nat \<Rightarrow> request_method" where
  "SubscriptionRequest_reject now request s = (None, set_status (rid request) ''rejected'' now s)"

section \<open>The routes\<close>

text \<open>
  The decorator \<^verbatim>\<open>admin_required\<close>. The current user of the session is \<open>None\<close> for an
  anonymous visitor (\<^verbatim>\<open>is_authenticated\<close> false) and the logged-in user otherwise. A
  visitor who is not an admin is redirected to the login view and the wrapped view does
  not run. The flashed message lives in the session, not in the store.
\<close>

definition admin_required ::
  "user option \<Rightarrow> (store \<Rightarrow> outcome \<times> store) \<Rightarrow> store \<Rightarrow> outcome \<times> store" where
  "admin_required current_user f s =
     (case current_user of
        None \<Rightarrow> (Redirect ''admin.admin_login'', s)
      | Some cu \<Rightarrow> if \<not> is_admin cu then (Redirect ''admin.admin_login'', s) else f s)"

text \<open>
  \<^verbatim>\<open>approve_subscription_request\<close>. The method \<^verbatim>\<open>request.approve()\<close> is the argument
  \<open>approve\<close>; an exception it raises is not caught by the view. After the call the view
  reads \<^verbatim>\<open>request.user_id\<close> and \<^verbatim>\<open>request.requested_tier\<close> of the same object, which
  the method leaves as loaded, and \<^verbatim>\<open>user.email\<close> of the looked-up user, which raises
  \<^verbatim>\<open>AttributeError\<close> when the lookup gave \<^verbatim>\<open>None\<close>.
\<close>

definition approve_subscription_request ::
  "user option \<Rightarrow> request_method \<Rightarrow> string \<Rightarrow> store \<Rightarrow> outcome \<times> store" where
  "approve_subscription_request current_user approve request_id =
     admin_required current_user (\<lambda>s.
       case SubscriptionRequest_query_get s request_id of
         None \<Rightarrow> (Response 404 (Error ''Request not found''), s)
       | Some request \<Rightarrow>
           if status request \<noteq> ''pending''
           then (Response 400 (Error ''Request already processed''), s)
           else (case approve request s of
                   (Some e, s') \<Rightarrow> (Unhandled e, s')
                 | (None, s') \<Rightarrow>
                     (case User_get s' (user_id request) of
                        None \<Rightarrow> (Unhandled AttributeError, s')
                      | Some user \<Rightarrow>
                          (Response 200 (Success (''Approved '' @ email user @
                             '''s upgrade to '' @ requested_tier request)), s'))))"

definition reject_subscription_request ::
  "user option \<Rightarrow> request_method \<Rightarrow> string \<Rightarrow> store \<Rightarrow> outcome \<times> store" where
  "reject_subscription_request current_user reject request_id =
     admin_required current_user (\<lambda>s.
       case SubscriptionRequest_query_get s request_id of
         None \<Rightarrow> (Response 404 (Error ''Request not found''), s)
       | Some request \<Rightarrow>
           if status request \<noteq> ''pending''
           then (Response 400 (Error ''Request already processed''), s)
           else (case reject request s of
                   (Some e, s') \<Rightarrow> (Unhandled e, s')
                 | (None, s') \<Rightarrow>
                     (case User_get s' (user_id request) of
                        None \<Rightarrow> (Unhandled AttributeError, s')
                      | Some user \<Rightarrow>
                          (Response 200 (Success (''Rejected '' @ email user @
                             '''s upgrade request'')), s'))))"

text \<open>
  Modelled from the spec: \<^verbatim>\<open>SubscriptionRequest.get_pending\<close> of \<^verbatim>\<open>models.py\<close>, which
  is not among the sources. Spec, operation listPending: "returns only requests with
  status == pending, ordered by creation time ascending".
\<close>

definition SubscriptionRequest_get_pending :: "store \<Rightarrow> subscription_request list" where
  "SubscriptionRequest_get_pending s =
     sort_key created_at (filter (\<lambda>r. status r = ''pending'') (requests s))"

text \<open>
  The pending requests of \<^verbatim>\<open>dashboard\<close>: one dictionary for each request that
  \<^verbatim>\<open>get_pending\<close> returned, in its order. \<^verbatim>\<open>user.email if user else 'Unknown'\<close> is the
  case distinction on the lookup. The text that \<^verbatim>\<open>strftime('%Y-%m-%d %H:%M')\<close> makes of
  a timestamp is the argument \<open>strftime\<close>.
\<close>

record request_data =
  rd_id :: string
  rd_user_email :: string
  rd_user_name :: string
  rd_current_tier :: string
  rd_requested_tier :: string
  rd_created_at :: string
  rd_status :: string

fun requests_data :: "(nat \<Rightarrow> string) \<Rightarrow> store \<Rightarrow> subscription_request list \<Rightarrow> request_data list" where
  "requests_data strftime s [] = []"
| "requests_data strftime s (request # pending_requests) =
     \<lparr>rd_id = rid request,
      rd_user_email = (case User_get s (user_id request) of Some user \<Rightarrow> email user | None \<Rightarrow> ''Unknown''),
      rd_user_name = (case User_get s (user_id request) of Some user \<Rightarrow> full_name user | None \<Rightarrow> ''Unknown''),
      rd_current_tier = current_tier request,
      rd_requested_tier = requested_tier request,
      rd_created_at = strftime (created_at request),
      rd_status = status request\<rparr>
     # requests_data strftime s pending_requests"

definition dashboard_subscription_requests :: "(nat \<Rightarrow> string) \<Rightarrow> store \<Rightarrow> request_data list" where
  "dashboard_subscription_requests strftime s =
     requests_data strftime s (SubscriptionRequest_get_pending s)"

text \<open>
  \<^verbatim>\<open>update_user_subscription\<close>. The JSON body of the request is the dictionary \<open>data\<close>,
  here with string values; \<^verbatim>\<open>data.get('tier')\<close> is \<open>None\<close> when the key is missing,
  and \<open>None\<close> is not in the list of tiers.
\<close>

definition update_user_subscription ::
  "user option \<Rightarrow> (string \<rightharpoonup> string) \<Rightarrow> string \<Rightarrow> store \<Rightarrow> outcome \<times> store" where
  "update_user_subscription current_user data user_id' =
     admin_required current_user (\<lambda>s.
       case data ''tier'' of
         None \<Rightarrow> (Response 400 (Error ''Invalid data''), s)
       | Some new_tier \<Rightarrow>
           if user_id' = [] \<or> new_tier \<notin> set [''free'', ''medium'', ''pro'']
           then (Response 400 (Error ''Invalid data''), s)
           else (case User_get s user_id' of
                   None \<Rightarrow> (Response 404 (Error ''User not found''), s)
                 | Some user \<Rightarrow>
                     (Response 200 (Success (''Updated '' @ email user @ '' to '' @ new_tier @ '' tier'')),
                      User_update_subscription (uid user) new_tier s)))"

text \<open>
  \<^verbatim>\<open>add_user_subscription\<close>: \<^verbatim>\<open>data.get('tier', 'medium')\<close> is the value of the key, or
  \<^verbatim>\<open>'medium'\<close> when the key is missing.
\<close>

definition add_user_subscription ::
  "user option \<Rightarrow> (string \<rightharpoonup> string) \<Rightarrow> string \<Rightarrow> store \<Rightarrow> outcome \<times> store" where
  "add_user_subscription current_user data user_id' =
     admin_required current_user (\<lambda>s.
       let subscription_tier' = (case data ''tier'' of None \<Rightarrow> ''medium'' | Some t \<Rightarrow> t) in
       case User_get s user_id' of
         None \<Rightarrow> (Response 404 (Error ''User not found''), s)
       | Some user \<Rightarrow>
           (Response 200 (Success (''Added '' @ subscription_tier' @ '' subscription to '' @ email user)),
            User_update_subscription (uid user) subscription_tier' s))"

definition remove_user_subscription :: "user option \<Rightarrow> string \<Rightarrow> store \<Rightarrow> outcome \<times> store" where
  "remove_user_subscription current_user user_id' =
     admin_required current_user (\<lambda>s.
       case User_get s user_id' of
         None \<Rightarrow> (Response 404 (Error ''User not found''), s)
       | Some user \<Rightarrow>
           (Response 200 (Success (''Removed subscription from '' @ email user @ '' (now free tier)'')),
            User_update_subscription (uid user) ''free'' s))"

text \<open>
  \<^verbatim>\<open>delete_user\<close>. The database session either deletes and commits, or raises an
  exception whose text is \<open>db_fault\<close>; the view catches it, rolls the session back (the
  store is as it was) and answers 500 with that text. The watchlists that the deletion
  cascades to are not part of this store.
\<close>

definition delete_user :: "user option \<Rightarrow> string option \<Rightarrow> string \<Rightarrow> store \<Rightarrow> outcome \<times> store" where
  "delete_user current_user db_fault user_id' =
     admin_required current_user (\<lambda>s.
       case User_get s user_id' of
         None \<Rightarrow> (Response 404 (Error ''User not found''), s)
       | Some user \<Rightarrow>
           if is_admin user then (Response 403 (Error ''Cannot delete admin users''), s)
           else (case db_fault of
                   None \<Rightarrow>
                     (Response 200 (Success (''Deleted user '' @ email user)),
                      s\<lparr>users := filter (\<lambda>u. uid u \<noteq> uid user) (users s)\<rparr>)
                 | Some e \<Rightarrow> (Response 500 (Error e), s)))"

text \<open>The invariant of the tier enumeration: every user has one of the three tiers.\<close>

definition tiers_valid :: "store \<Rightarrow> bool" where
  "tiers_valid s = list_all (\<lambda>u. subscription_tier u \<in> set [''free'', ''medium'', ''pro'']) (users s)"

section \<open>Example stores\<close>

definition admin0 :: user where
  "admin0 = \<lparr>uid = ''a1'', email = ''root@tg.io'', full_name = ''Root'',
             subscription_tier = ''pro'', is_admin = True\<rparr>"

definition user1 :: user where
  "user1 = \<lparr>uid = ''u1'', email = ''ann@tg.io'', full_name = ''Ann'',
            subscription_tier = ''free'', is_admin = False\<rparr>"

definition request1 :: subscription_request where
  "request1 = \<lparr>rid = ''r1'', user_id = ''u1'', current_tier = ''free'',
               requested_tier = ''pro'', status = ''pending'', created_at = 10, updated_at = 10\<rparr>"

definition store0 :: store where
  "store0 = \<lparr>users = [admin0, user1], requests = [request1]\<rparr>"

text \<open>A request whose user is not in the user table, and one that is already approved.\<close>

definition request2 :: subscription_request where
  "request2 = \<lparr>rid = ''r2'', user_id = ''u9'', current_tier = ''free'',
               requested_tier = ''medium'', status = ''pending'', created_at = 5, updated_at = 5\<rparr>"

definition request3 :: subscription_request where
  "request3 = \<lparr>rid = ''r3'', user_id = ''u1'', current_tier = ''free'',
               requested_tier = ''medium'', status = ''approved'', created_at = 1, updated_at = 2\<rparr>"

definition store1 :: store where
  "store1 = \<lparr>users = [admin0, user1], requests = [request1, request2, request3]\<rparr>"

section \<open>Lookups after an update\<close>

lemma find_uid_map:
  "find (\<lambda>u. uid u = k) (map (\<lambda>u. if uid u = k' then u\<lparr>subscription_tier := t\<rparr> else u) us) =
   map_option (\<lambda>u. if uid u = k' then u\<lparr>subscription_tier := t\<rparr> else u) (find (\<lambda>u. uid u = k) us)"
  by (induction us) auto

lemma find_rid_map:
  "find (\<lambda>r. rid r = k) (map (\<lambda>r. if rid r = k' then r\<lparr>status := st, updated_at := n\<rparr> else r) rs) =
   map_option (\<lambda>r. if rid r = k' then r\<lparr>status := st, updated_at := n\<rparr> else r)
     (find (\<lambda>r. rid r = k) rs)"
  by (induction rs) auto

lemma find_Some_key: "find (\<lambda>r. f r = k) rs = Some r \<Longrightarrow> f r = k"
  by (induction rs) (auto split: if_splits)

lemma User_get_update_subscription:
  "User_get (User_update_subscription k' t s) k =
   map_option (\<lambda>u. if uid u = k' then u\<lparr>subscription_tier := t\<rparr> else u) (User_get s k)"
  by (simp add: User_get_def User_update_subscription_def find_uid_map)

lemma User_get_set_status: "User_get (set_status k st n s) k' = User_get s k'"
  by (simp add: User_get_def set_status_def)

lemma query_get_update_subscription:
  "SubscriptionRequest_query_get (User_update_subscription k t s) k' =
   SubscriptionRequest_query_get s k'"
  by (simp add: SubscriptionRequest_query_get_def User_update_subscription_def)

lemma query_get_set_status:
  "SubscriptionRequest_query_get (set_status k' st n s) k =
   map_option (\<lambda>r. if rid r = k' then r\<lparr>status := st, updated_at := n\<rparr> else r)
     (SubscriptionRequest_query_get s k)"
  by (simp add: SubscriptionRequest_query_get_def set_status_def find_rid_map)

lemma query_get_rid: "SubscriptionRequest_query_get s k = Some r \<Longrightarrow> rid r = k"
  unfolding SubscriptionRequest_query_get_def by (rule find_Some_key)

section \<open>Requests that do not exist\<close>

text \<open>
  C4. For an admin session and a request id that identifies no request, approve and
  reject both answer 404 with the error "Request not found", whatever the request
  methods are, and return the store as it was: no status and no tier has changed.
\<close>

theorem not_found_no_mutation:
  assumes "is_admin cu" and "SubscriptionRequest_query_get s request_id = None"
  shows "approve_subscription_request (Some cu) approve request_id s =
           (Response 404 (Error ''Request not found''), s) \<and>
         reject_subscription_request (Some cu) reject request_id s =
           (Response 404 (Error ''Request not found''), s)"
  using assms
  by (simp add: approve_subscription_request_def reject_subscription_request_def admin_required_def)

theorem not_found_no_mutation_witness:
  "is_admin admin0 \<and> SubscriptionRequest_query_get store0 ''nonexistent'' = None \<and>
   approve_subscription_request (Some admin0) (SubscriptionRequest_approve 20) ''nonexistent'' store0 =
     (Response 404 (Error ''Request not found''), store0) \<and>
   reject_subscription_request (Some admin0) (SubscriptionRequest_reject 20) ''nonexistent'' store0 =
     (Response 404 (Error ''Request not found''), store0)"
proof -
  have a: "is_admin admin0" by (simp add: admin0_def)
  have n: "SubscriptionRequest_query_get store0 ''nonexistent'' = None"
    by (simp add: SubscriptionRequest_query_get_def store0_def request1_def)
  from a n not_found_no_mutation [OF a n, of "SubscriptionRequest_approve 20" "SubscriptionRequest_reject 20"]
  show ?thesis by simp
qed

section \<open>Requests that are already processed\<close>

text \<open>
  C2. For an admin session and a request whose status is no longer "pending" (so also
  when it is "approved" or "rejected"), approve and reject both answer 400 with the
  error "Request already processed", whatever the request methods are, and return the
  store as it was: the status of the request and the tier of its user are unchanged, and
  no transition leaves a terminal state.
\<close>

theorem processed_request_invalid_state:
  assumes "is_admin cu" and "SubscriptionRequest_query_get s request_id = Some r"
    and "status r \<noteq> ''pending''"
  shows "approve_subscription_request (Some cu) approve request_id s =
           (Response 400 (Error ''Request already processed''), s) \<and>
         reject_subscription_request (Some cu) reject request_id s =
           (Response 400 (Error ''Request already processed''), s)"
  using assms
  by (simp add: approve_subscription_request_def reject_subscription_request_def admin_required_def)

theorem processed_request_invalid_state_witness:
  "is_admin admin0 \<and> SubscriptionRequest_query_get store1 ''r3'' = Some request3 \<and>
   status request3 \<noteq> ''pending'' \<and>
   approve_subscription_request (Some admin0) (SubscriptionRequest_approve 20) ''r3'' store1 =
     (Response 400 (Error ''Request already processed''), store1) \<and>
   reject_subscription_request (Some admin0) (SubscriptionRequest_reject 20) ''r3'' store1 =
     (Response 400 (Error ''Request already processed''), store1)"
proof -
  have a: "is_admin admin0" by (simp add: admin0_def)
  have g: "SubscriptionRequest_query_get store1 ''r3'' = Some request3"
    by (simp add: SubscriptionRequest_query_get_def store1_def request1_def request2_def request3_def)
  have p: "status request3 \<noteq> ''pending''" by (simp add: request3_def)
  from a g p
    processed_request_invalid_state [OF a g p, of "SubscriptionRequest_approve 20" "SubscriptionRequest_reject 20"]
  show ?thesis by simp
qed

section \<open>Approving and rejecting a pending request\<close>

lemma approve_pending_store:
  assumes "is_admin cu" and "SubscriptionRequest_query_get s request_id = Some r"
    and "status r = ''pending''"
  shows "snd (approve_subscription_request (Some cu) (SubscriptionRequest_approve now) request_id s) =
         User_update_subscription (user_id r) (requested_tier r) (set_status request_id ''approved'' now s)"
  using assms query_get_rid [OF assms(2)]
  by (simp add: approve_subscription_request_def admin_required_def SubscriptionRequest_approve_def
      split: option.splits)

lemma reject_pending_store:
  assumes "is_admin cu" and "SubscriptionRequest_query_get s request_id = Some r"
    and "status r = ''pending''"
  shows "snd (reject_subscription_request (Some cu) (SubscriptionRequest_reject now) request_id s) =
         set_status request_id ''rejected'' now s"
  using assms query_get_rid [OF assms(2)]
  by (simp add: reject_subscription_request_def admin_required_def SubscriptionRequest_reject_def
      split: option.splits)

text \<open>
  C1. For an admin session and a request that exists and is pending, approve (with the
  approve method of the spec) leaves the request with status "approved" and the time of
  the call as its update time, and the referenced user, when there is one, with the
  requested tier as subscription tier and otherwise as before.
\<close>

theorem approve_pending_applies_tier:
  assumes "is_admin cu" and "SubscriptionRequest_query_get s request_id = Some r"
    and "status r = ''pending''"
    and "s' = snd (approve_subscription_request (Some cu) (SubscriptionRequest_approve now) request_id s)"
  shows "SubscriptionRequest_query_get s' request_id = Some (r\<lparr>status := ''approved'', updated_at := now\<rparr>) \<and>
         (\<forall>u. User_get s (user_id r) = Some u \<longrightarrow>
              User_get s' (user_id r) = Some (u\<lparr>subscription_tier := requested_tier r\<rparr>))"
proof -
  have k: "rid r = request_id" using assms(2) by (rule query_get_rid)
  have st: "s' = User_update_subscription (user_id r) (requested_tier r)
                   (set_status request_id ''approved'' now s)"
    using approve_pending_store [OF assms(1-3)] assms(4) by simp
  have req: "SubscriptionRequest_query_get s' request_id =
             Some (r\<lparr>status := ''approved'', updated_at := now\<rparr>)"
    by (simp add: st query_get_update_subscription query_get_set_status assms(2) k)
  have usr: "User_get s' (user_id r) = Some (u\<lparr>subscription_tier := requested_tier r\<rparr>)"
    if "User_get s (user_id r) = Some u" for u
  proof -
    have "uid u = user_id r"
      using that unfolding User_get_def by (rule find_Some_key)
    then show ?thesis
      by (simp add: st User_get_update_subscription User_get_set_status that)
  qed
  from req usr show ?thesis by blast
qed

theorem approve_pending_applies_tier_witness:
  "SubscriptionRequest_query_get
     (snd (approve_subscription_request (Some admin0) (SubscriptionRequest_approve 20) ''r1'' store0)) ''r1'' =
     Some (request1\<lparr>status := ''approved'', updated_at := 20\<rparr>) \<and>
   User_get store0 ''u1'' = Some user1 \<and>
   User_get (snd (approve_subscription_request (Some admin0) (SubscriptionRequest_approve 20) ''r1'' store0)) ''u1'' =
     Some (user1\<lparr>subscription_tier := ''pro''\<rparr>)"
proof -
  have a: "is_admin admin0" by (simp add: admin0_def)
  have g: "SubscriptionRequest_query_get store0 ''r1'' = Some request1"
    by (simp add: SubscriptionRequest_query_get_def store0_def request1_def)
  have p: "status request1 = ''pending''" by (simp add: request1_def)
  have u: "User_get store0 (user_id request1) = Some user1"
    by (simp add: User_get_def store0_def request1_def admin0_def user1_def)
  have f: "user_id request1 = ''u1''" "requested_tier request1 = ''pro''"
    by (simp_all add: request1_def)
  from approve_pending_applies_tier [OF a g p refl, of 20] u f
  show ?thesis by simp
qed

text \<open>
  C3. For an admin session and a request that exists and is pending, reject (with the
  reject method of the spec) leaves the request with status "rejected" and every user as
  before the call; so the referenced user still has the tier held before the call, which
  is the request's current tier whenever it was so before the call.
\<close>

theorem reject_pending_keeps_tier:
  assumes "is_admin cu" and "SubscriptionRequest_query_get s request_id = Some r"
    and "status r = ''pending''"
    and "s' = snd (reject_subscription_request (Some cu) (SubscriptionRequest_reject now) request_id s)"
  shows "SubscriptionRequest_query_get s' request_id = Some (r\<lparr>status := ''rejected'', updated_at := now\<rparr>) \<and>
         users s' = users s \<and>
         User_get s' (user_id r) = User_get s (user_id r) \<and>
         (\<forall>u. User_get s (user_id r) = Some u \<and> subscription_tier u = current_tier r \<longrightarrow>
              map_option subscription_tier (User_get s' (user_id r)) = Some (current_tier r))"
proof -
  have k: "rid r = request_id" using assms(2) by (rule query_get_rid)
  have st: "s' = set_status request_id ''rejected'' now s"
    using reject_pending_store [OF assms(1-3)] assms(4) by simp
  have req: "SubscriptionRequest_query_get s' request_id =
             Some (r\<lparr>status := ''rejected'', updated_at := now\<rparr>)"
    by (simp add: st query_get_set_status assms(2) k)
  have us: "users s' = users s" by (simp add: st set_status_def)
  have ug: "User_get s' (user_id r) = User_get s (user_id r)"
    by (simp add: st User_get_set_status)
  from req us ug show ?thesis by auto
qed

theorem reject_pending_keeps_tier_witness:
  "SubscriptionRequest_query_get
     (snd (reject_subscription_request (Some admin0) (SubscriptionRequest_reject 20) ''r1'' store0)) ''r1'' =
     Some (request1\<lparr>status := ''rejected'', updated_at := 20\<rparr>) \<and>
   User_get store0 ''u1'' = Some user1 \<and> subscription_tier user1 = current_tier request1 \<and>
   map_option subscription_tier
     (User_get (snd (reject_subscription_request (Some admin0) (SubscriptionRequest_reject 20) ''r1'' store0)) ''u1'') =
     Some ''free''"
proof -
  have a: "is_admin admin0" by (simp add: admin0_def)
  have g: "SubscriptionRequest_query_get store0 ''r1'' = Some request1"
    by (simp add: SubscriptionRequest_query_get_def store0_def request1_def)
  have p: "status request1 = ''pending''" by (simp add: request1_def)
  have u: "User_get store0 (user_id request1) = Some user1"
    by (simp add: User_get_def store0_def request1_def admin0_def user1_def)
  have f: "user_id request1 = ''u1''" "current_tier request1 = ''free''"
    "subscription_tier user1 = ''free''"
    by (simp_all add: request1_def user1_def)
  from reject_pending_keeps_tier [OF a g p refl, of 20] u f
  show ?thesis by simp
qed

text \<open>
  The scenario of the spec: \<open>r1\<close> asks for "pro" for the user \<open>u1\<close>; after it is
  approved, rejecting it answers 400, changes nothing, and \<open>u1\<close> keeps the tier "pro".
\<close>

lemma scenario_approve_then_reject:
  fixes s1
  defines "s1 \<equiv> snd (approve_subscription_request (Some admin0) (SubscriptionRequest_approve 20) ''r1'' store0)"
  shows "reject_subscription_request (Some admin0) (SubscriptionRequest_reject 30) ''r1'' s1 =
           (Response 400 (Error ''Request already processed''), s1) \<and>
         map_option subscription_tier (User_get s1 ''u1'') = Some ''pro''"
  unfolding s1_def
  by (simp add: approve_subscription_request_def reject_subscription_request_def admin_required_def
      SubscriptionRequest_query_get_def SubscriptionRequest_approve_def
      User_get_def User_update_subscription_def set_status_def
      store0_def request1_def admin0_def user1_def)

text \<open>Without an admin session no view runs: the visitor is redirected, the store is as it was.\<close>

lemma admin_required_gate:
  "current_user = None \<or> (\<exists>cu. current_user = Some cu \<and> \<not> is_admin cu) \<Longrightarrow>
   admin_required current_user f s = (Redirect ''admin.admin_login'', s)"
  by (auto simp: admin_required_def)

section \<open>The pending requests of the dashboard\<close>

lemma length_requests_data: "length (requests_data strftime s ps) = length ps"
  by (induction ps) auto

lemma map_rd_id_requests_data: "map rd_id (requests_data strftime s ps) = map rid ps"
  by (induction ps) auto

lemma nth_requests_data:
  "i < length ps \<Longrightarrow>
   requests_data strftime s ps ! i =
     \<lparr>rd_id = rid (ps ! i),
      rd_user_email = (case User_get s (user_id (ps ! i)) of Some u \<Rightarrow> email u | None \<Rightarrow> ''Unknown''),
      rd_user_name = (case User_get s (user_id (ps ! i)) of Some u \<Rightarrow> full_name u | None \<Rightarrow> ''Unknown''),
      rd_current_tier = current_tier (ps ! i),
      rd_requested_tier = requested_tier (ps ! i),
      rd_created_at = strftime (created_at (ps ! i)),
      rd_status = status (ps ! i)\<rparr>"
proof (induction ps arbitrary: i)
  case Nil
  then show ?case by simp
next
  case (Cons p ps)
  then show ?case by (cases i) auto
qed

lemma get_pending_mset:
  "mset (SubscriptionRequest_get_pending s) = mset (filter (\<lambda>r. status r = ''pending'') (requests s))"
  by (simp add: SubscriptionRequest_get_pending_def)

lemma get_pending_sorted: "sorted (map created_at (SubscriptionRequest_get_pending s))"
  by (simp add: SubscriptionRequest_get_pending_def sorted_sort_key)

text \<open>
  C5. The listing of the dashboard has one entry for each request that \<open>get_pending\<close>
  returns, in the same order. With \<open>get_pending\<close> as the spec describes it, these are
  exactly the requests of the store with status "pending" (each as often as it is
  stored), in ascending order of creation time. Every entry carries the id of its request
  and the status "pending"; its email and name are those of the referenced user, and
  "Unknown" when there is no such user. The listing is a total function: no entry is
  dropped and nothing is raised.
\<close>

theorem dashboard_lists_pending:
  fixes strftime s
  defines "ps \<equiv> SubscriptionRequest_get_pending s"
    and "ds \<equiv> dashboard_subscription_requests strftime s"
  shows "mset ps = mset (filter (\<lambda>r. status r = ''pending'') (requests s)) \<and>
         sorted (map created_at ps) \<and>
         length ds = length ps \<and>
         (\<forall>i < length ps.
            rd_id (ds ! i) = rid (ps ! i) \<and> rd_status (ds ! i) = ''pending'' \<and>
            (User_get s (user_id (ps ! i)) = None \<longrightarrow>
               rd_user_email (ds ! i) = ''Unknown'' \<and> rd_user_name (ds ! i) = ''Unknown'') \<and>
            (\<forall>u. User_get s (user_id (ps ! i)) = Some u \<longrightarrow>
               rd_user_email (ds ! i) = email u \<and> rd_user_name (ds ! i) = full_name u))"
proof -
  have m: "mset ps = mset (filter (\<lambda>r. status r = ''pending'') (requests s))"
    unfolding ps_def by (rule get_pending_mset)
  have so: "sorted (map created_at ps)"
    unfolding ps_def by (rule get_pending_sorted)
  have l: "length ds = length ps"
    by (simp add: ds_def ps_def dashboard_subscription_requests_def length_requests_data)
  have e: "rd_id (ds ! i) = rid (ps ! i) \<and> rd_status (ds ! i) = ''pending'' \<and>
            (User_get s (user_id (ps ! i)) = None \<longrightarrow>
               rd_user_email (ds ! i) = ''Unknown'' \<and> rd_user_name (ds ! i) = ''Unknown'') \<and>
            (\<forall>u. User_get s (user_id (ps ! i)) = Some u \<longrightarrow>
               rd_user_email (ds ! i) = email u \<and> rd_user_name (ds ! i) = full_name u)"
    if i: "i < length ps" for i
  proof -
    have "ps ! i \<in> set ps" using i by simp
    then have "ps ! i \<in># mset ps" by simp
    then have "ps ! i \<in> set (filter (\<lambda>r. status r = ''pending'') (requests s))"
      unfolding m by simp
    then have p: "status (ps ! i) = ''pending''" by simp
    have d: "ds ! i = requests_data strftime s ps ! i"
      by (simp add: ds_def ps_def dashboard_subscription_requests_def)
    show ?thesis
      unfolding d nth_requests_data [OF i] using p by simp
  qed
  from m so l e show ?thesis by blast
qed

theorem dashboard_lists_pending_witness:
  "SubscriptionRequest_get_pending store1 = [request2, request1] \<and>
   User_get store1 (user_id request2) = None \<and>
   rd_id (dashboard_subscription_requests (\<lambda>t. ''1970-01-01 00:00'') store1 ! 0) = ''r2'' \<and>
   rd_user_email (dashboard_subscription_requests (\<lambda>t. ''1970-01-01 00:00'') store1 ! 0) = ''Unknown'' \<and>
   rd_user_name (dashboard_subscription_requests (\<lambda>t. ''1970-01-01 00:00'') store1 ! 0) = ''Unknown'' \<and>
   User_get store1 (user_id request1) = Some user1 \<and>
   rd_id (dashboard_subscription_requests (\<lambda>t. ''1970-01-01 00:00'') store1 ! 1) = ''r1'' \<and>
   rd_user_email (dashboard_subscription_requests (\<lambda>t. ''1970-01-01 00:00'') store1 ! 1) = ''ann@tg.io''"
proof -
  have g: "SubscriptionRequest_get_pending store1 = [request2, request1]"
    by (simp add: SubscriptionRequest_get_pending_def store1_def request1_def request2_def request3_def)
  have u2: "User_get store1 (user_id request2) = None"
    by (simp add: User_get_def store1_def request2_def admin0_def user1_def)
  have u1: "User_get store1 (user_id request1) = Some user1"
    by (simp add: User_get_def store1_def request1_def admin0_def user1_def)
  have f: "rid request2 = ''r2''" "rid request1 = ''r1''" "email user1 = ''ann@tg.io''"
    by (simp_all add: request1_def request2_def user1_def)
  from dashboard_lists_pending [of store1 "\<lambda>t. ''1970-01-01 00:00''"] g u1 u2 f
  show ?thesis by simp
qed

section \<open>Deleting users\<close>

text \<open>
  C10. For an admin session and a user id that resolves to a user with \<open>is_admin\<close> true,
  \<open>delete_user\<close> answers 403 with the error "Cannot delete admin users" and returns the
  store as it was, whether or not the database session would fail.
\<close>

theorem delete_admin_forbidden:
  assumes "is_admin cu" and "User_get s user_id' = Some u" and "is_admin u"
  shows "delete_user (Some cu) db_fault user_id' s =
           (Response 403 (Error ''Cannot delete admin users''), s)"
  using assms by (simp add: delete_user_def admin_required_def)

theorem delete_admin_forbidden_witness:
  "is_admin admin0 \<and> User_get store0 ''a1'' = Some admin0 \<and>
   delete_user (Some admin0) None ''a1'' store0 =
     (Response 403 (Error ''Cannot delete admin users''), store0)"
proof -
  have a: "is_admin admin0" by (simp add: admin0_def)
  have g: "User_get store0 ''a1'' = Some admin0"
    by (simp add: User_get_def store0_def admin0_def)
  from a g delete_admin_forbidden [OF a g a, of None] show ?thesis by simp
qed

section \<open>What approve and reject can answer\<close>

text \<open>
  The views catch nothing: an exception of the request method leaves the view unhandled,
  with the store as the method left it, and no answer of the views has code 500.
\<close>

lemma approve_method_failure_unhandled:
  assumes "is_admin cu" and "SubscriptionRequest_query_get s request_id = Some r"
    and "status r = ''pending''" and "approve r s = (Some e, s')"
  shows "approve_subscription_request (Some cu) approve request_id s = (Unhandled e, s')"
  using assms by (simp add: approve_subscription_request_def admin_required_def)

lemma reject_method_failure_unhandled:
  assumes "is_admin cu" and "SubscriptionRequest_query_get s request_id = Some r"
    and "status r = ''pending''" and "reject r s = (Some e, s')"
  shows "reject_subscription_request (Some cu) reject request_id s = (Unhandled e, s')"
  using assms by (simp add: reject_subscription_request_def admin_required_def)

lemma approve_never_500:
  "fst (approve_subscription_request current_user approve request_id s) \<noteq> Response 500 p"
  by (auto simp: approve_subscription_request_def admin_required_def
      split: option.splits prod.splits)

lemma reject_never_500:
  "fst (reject_subscription_request current_user reject request_id s) \<noteq> Response 500 p"
  by (auto simp: reject_subscription_request_def admin_required_def
      split: option.splits prod.splits)

text \<open>
  C7 (the code at a failing input). The request method raises a database error on the
  pending request \<open>r1\<close>: neither view answers 500 with the text of the error; the
  exception leaves the view unhandled.
\<close>

theorem store_failure_unhandled:
  "approve_subscription_request (Some admin0) (\<lambda>r s. (Some (DBError ''connection lost''), s)) ''r1'' store0 =
     (Unhandled (DBError ''connection lost''), store0) \<and>
   approve_subscription_request (Some admin0) (\<lambda>r s. (Some (DBError ''connection lost''), s)) ''r1'' store0 \<noteq>
     (Response 500 (Error ''connection lost''), store0) \<and>
   reject_subscription_request (Some admin0) (\<lambda>r s. (Some (DBError ''connection lost''), s)) ''r1'' store0 =
     (Unhandled (DBError ''connection lost''), store0)"
  by (simp add: approve_subscription_request_def reject_subscription_request_def admin_required_def
      SubscriptionRequest_query_get_def store0_def request1_def admin0_def)

text \<open>
  When the method succeeds and the referenced user exists, the answer is the success
  payload with the email of the user and, for approve, the requested tier.
\<close>

lemma approve_success_payload:
  assumes "is_admin cu" and "SubscriptionRequest_query_get s request_id = Some r"
    and "status r = ''pending''" and "User_get s (user_id r) = Some u"
  shows "fst (approve_subscription_request (Some cu) (SubscriptionRequest_approve now) request_id s) =
         Response 200 (Success (''Approved '' @ email u @ '''s upgrade to '' @ requested_tier r))"
proof -
  have "uid u = user_id r"
    using assms(4) unfolding User_get_def by (rule find_Some_key)
  then show ?thesis
    using assms
    by (simp add: approve_subscription_request_def admin_required_def SubscriptionRequest_approve_def
        User_get_update_subscription User_get_set_status)
qed

lemma reject_success_payload:
  assumes "is_admin cu" and "SubscriptionRequest_query_get s request_id = Some r"
    and "status r = ''pending''" and "User_get s (user_id r) = Some u"
  shows "fst (reject_subscription_request (Some cu) (SubscriptionRequest_reject now) request_id s) =
         Response 200 (Success (''Rejected '' @ email u @ '''s upgrade request''))"
  using assms
  by (simp add: reject_subscription_request_def admin_required_def SubscriptionRequest_reject_def
      User_get_set_status)

lemma approve_absent_user_unhandled:
  assumes "is_admin cu" and "SubscriptionRequest_query_get s request_id = Some r"
    and "status r = ''pending''" and "approve r s = (None, s')" and "User_get s' (user_id r) = None"
  shows "approve_subscription_request (Some cu) approve request_id s = (Unhandled AttributeError, s')"
  using assms by (simp add: approve_subscription_request_def admin_required_def)

lemma reject_absent_user_unhandled:
  assumes "is_admin cu" and "SubscriptionRequest_query_get s request_id = Some r"
    and "status r = ''pending''" and "reject r s = (None, s')" and "User_get s' (user_id r) = None"
  shows "reject_subscription_request (Some cu) reject request_id s = (Unhandled AttributeError, s')"
  using assms by (simp add: reject_subscription_request_def admin_required_def)

text \<open>
  C8 (the code at a failing input). The pending request \<open>r2\<close> refers to the user
  \<open>u9\<close>, who is not in the user table. Approve and reject do not answer 404: the
  method runs, the request is approved or rejected in the store, and then reading the
  email of the missing user raises \<open>AttributeError\<close>, which nothing handles.
\<close>

theorem absent_user_unhandled:
  "User_get store1 (user_id request2) = None \<and>
   approve_subscription_request (Some admin0) (SubscriptionRequest_approve 20) ''r2'' store1 =
     (Unhandled AttributeError,
      store1\<lparr>requests := [request1, request2\<lparr>status := ''approved'', updated_at := 20\<rparr>, request3]\<rparr>) \<and>
   reject_subscription_request (Some admin0) (SubscriptionRequest_reject 20) ''r2'' store1 =
     (Unhandled AttributeError,
      store1\<lparr>requests := [request1, request2\<lparr>status := ''rejected'', updated_at := 20\<rparr>, request3]\<rparr>)"
  by (simp add: approve_subscription_request_def reject_subscription_request_def admin_required_def
      SubscriptionRequest_query_get_def SubscriptionRequest_approve_def SubscriptionRequest_reject_def
      User_get_def User_update_subscription_def set_status_def
      store1_def request1_def request2_def request3_def admin0_def user1_def)

section \<open>The tiers that the admin operations assign\<close>

lemma tiers_valid_update_subscription:
  "tiers_valid s \<Longrightarrow> tier \<in> set [''free'', ''medium'', ''pro''] \<Longrightarrow>
   tiers_valid (User_update_subscription k tier s)"
  by (auto simp: tiers_valid_def User_update_subscription_def list_all_iff)

lemma update_user_subscription_invalid_tier:
  assumes "is_admin cu" and "data ''tier'' = Some tier"
    and "tier \<notin> set [''free'', ''medium'', ''pro'']"
  shows "update_user_subscription (Some cu) data user_id' s = (Response 400 (Error ''Invalid data''), s)"
  using assms by (simp add: update_user_subscription_def admin_required_def)

lemma update_user_subscription_tiers_valid:
  "tiers_valid s \<Longrightarrow> tiers_valid (snd (update_user_subscription current_user data user_id' s))"
  by (auto simp: update_user_subscription_def admin_required_def
      intro!: tiers_valid_update_subscription split: option.splits)

lemma remove_user_subscription_tiers_valid:
  "tiers_valid s \<Longrightarrow> tiers_valid (snd (remove_user_subscription current_user user_id' s))"
  by (auto simp: remove_user_subscription_def admin_required_def
      intro!: tiers_valid_update_subscription split: option.splits)

text \<open>
  C9 (the code at a failing input). \<open>add_user_subscription\<close> does not compare the tier of
  the body with the three tiers, as \<open>update_user_subscription\<close> does: for the tier
  "platinum" it answers with success, not with 400, and the user has the tier "platinum"
  afterwards.
\<close>

theorem add_user_subscription_any_tier:
  "tiers_valid store0 \<and>
   add_user_subscription (Some admin0) [''tier'' \<mapsto> ''platinum''] ''u1'' store0 =
     (Response 200 (Success ''Added platinum subscription to ann@tg.io''),
      store0\<lparr>users := [admin0, user1\<lparr>subscription_tier := ''platinum''\<rparr>]\<rparr>) \<and>
   \<not> tiers_valid (snd (add_user_subscription (Some admin0) [''tier'' \<mapsto> ''platinum''] ''u1'' store0)) \<and>
   update_user_subscription (Some admin0) [''tier'' \<mapsto> ''platinum''] ''u1'' store0 =
     (Response 400 (Error ''Invalid data''), store0)"
  by (simp add: add_user_subscription_def update_user_subscription_def admin_required_def
      tiers_valid_def User_get_def User_update_subscription_def store0_def admin0_def user1_def)

end
